theory Spec2Isabelle
  imports Complex_Main "HOL-Library.Sublist"
begin

section \<open>Little Library: a shallow embedding of the browser pages and the server\<close>

text \<open>
  The repository is a book-tracking web application: the shared script (the persistence
  client: \<^verbatim>\<open>loadBooks\<close>, \<^verbatim>\<open>saveBooks\<close>, \<^verbatim>\<open>getBookIdFromUrl\<close>), \<^verbatim>\<open>index.js\<close> (the list
  page: validity filter, search, grid renderer, refocus handler), the script of the detail
  page (\<^verbatim>\<open>updateStatus\<close>, \<^verbatim>\<open>deleteBook\<close>, \<^verbatim>\<open>displayBookDetails\<close>), \<^verbatim>\<open>addBook.js\<close>
  (\<^verbatim>\<open>handleAddBook\<close>) and an Express server with two routes over one file,
  \<^verbatim>\<open>books.json\<close>.

  Conventions of the embedding.
  \<^item> A JavaScript string is a \<open>string\<close>; a character stands for one code unit in the range
    U+0000 to U+00FF, on which \<^verbatim>\<open>toLowerCase\<close> keeps the length and \<^verbatim>\<open>trim\<close> strips the
    seven white-space and line-terminator code units of that range.
  \<^item> An object is a record; a property that may be absent (\<^verbatim>\<open>undefined\<close>) is an
    \<open>option\<close>, and the truthiness test \<^verbatim>\<open>x && ...\<close> on it is written out.
  \<^item> An exception is a value \<open>Inl e\<close> of a sum type; a \<^verbatim>\<open>try/catch\<close> is the case analysis
    on that sum.
  \<^item> The network, the server's disk, the clock and the user's answer to a dialog are inputs
    of each handler (the record \<open>env\<close>); the server's file and everything the page does
    that can be observed (requests issued, alerts, navigation, focus) is the record \<open>world\<close>.
\<close>

subsection \<open>Strings\<close>

text \<open>Upper-case letters of the range and, position by position, their lower-case forms.\<close>

definition upperLetters :: string where
  "upperLetters = ''ABCDEFGHIJKLMNOPQRSTUVWXYZ'' @
     [CHR 0xC0, CHR 0xC1, CHR 0xC2, CHR 0xC3, CHR 0xC4, CHR 0xC5, CHR 0xC6, CHR 0xC7,
      CHR 0xC8, CHR 0xC9, CHR 0xCA, CHR 0xCB, CHR 0xCC, CHR 0xCD, CHR 0xCE, CHR 0xCF,
      CHR 0xD0, CHR 0xD1, CHR 0xD2, CHR 0xD3, CHR 0xD4, CHR 0xD5, CHR 0xD6,
      CHR 0xD8, CHR 0xD9, CHR 0xDA, CHR 0xDB, CHR 0xDC, CHR 0xDD, CHR 0xDE]"

definition lowerLetters :: string where
  "lowerLetters = ''abcdefghijklmnopqrstuvwxyz'' @
     [CHR 0xE0, CHR 0xE1, CHR 0xE2, CHR 0xE3, CHR 0xE4, CHR 0xE5, CHR 0xE6, CHR 0xE7,
      CHR 0xE8, CHR 0xE9, CHR 0xEA, CHR 0xEB, CHR 0xEC, CHR 0xED, CHR 0xEE, CHR 0xEF,
      CHR 0xF0, CHR 0xF1, CHR 0xF2, CHR 0xF3, CHR 0xF4, CHR 0xF5, CHR 0xF6,
      CHR 0xF8, CHR 0xF9, CHR 0xFA, CHR 0xFB, CHR 0xFC, CHR 0xFD, CHR 0xFE]"

definition toLowerChar :: "char \<Rightarrow> char" where
  "toLowerChar c = (case map_of (zip upperLetters lowerLetters) c of Some l \<Rightarrow> l | None \<Rightarrow> c)"

text \<open>\<^verbatim>\<open>String.prototype.toLowerCase\<close>.\<close>

definition toLowerCase :: "string \<Rightarrow> string" where
  "toLowerCase s = map toLowerChar s"

text \<open>White space and line terminators: TAB, LF, VT, FF, CR, SP, NBSP.\<close>

definition isWhiteSpace :: "char \<Rightarrow> bool" where
  "isWhiteSpace c =
     (c \<in> set [CHR 0x09, CHR 0x0A, CHR 0x0B, CHR 0x0C, CHR 0x0D, CHR 0x20, CHR 0xA0])"

text \<open>\<^verbatim>\<open>String.prototype.trim\<close>.\<close>

definition trim :: "string \<Rightarrow> string" where
  "trim s = rev (dropWhile isWhiteSpace (rev (dropWhile isWhiteSpace s)))"

text \<open>\<^verbatim>\<open>haystack.includes(needle)\<close>: the needle starts at some position of the haystack.\<close>

fun includes_js :: "string \<Rightarrow> string \<Rightarrow> bool" where
  "includes_js [] needle = (needle = [])"
| "includes_js (c # cs) needle = (prefix needle (c # cs) \<or> includes_js cs needle)"

text \<open>\<^verbatim>\<open>s.substring(0, n)\<close> for \<open>n \<ge> 0\<close>.\<close>

definition substring0 :: "string \<Rightarrow> nat \<Rightarrow> string" where
  "substring0 s n = take n s"


subsection \<open>Numbers and their decimal text\<close>

definition digit_char :: "nat \<Rightarrow> char" where
  "digit_char d = ''0123456789'' ! d"

text \<open>The decimal digits of a natural number, most significant first.\<close>

function decimal :: "nat \<Rightarrow> string" where
  "decimal n = (if n < 10 then [digit_char n] else decimal (n div 10) @ [digit_char (n mod 10)])"
  by pat_completeness auto
termination
  by (relation "measure (\<lambda>n. n)") auto

declare decimal.simps [simp del]


definition digit_value :: "char \<Rightarrow> nat option" where
  "digit_value c = map_of (zip ''0123456789'' [0 ..< 10]) c"

text \<open>The value of a string of decimal digits read after the value \<open>acc\<close>; \<open>None\<close> when a
  character is not a digit.\<close>

fun digits_value :: "nat \<Rightarrow> string \<Rightarrow> nat option" where
  "digits_value acc [] = Some acc"
| "digits_value acc (c # cs) =
     (case digit_value c of None \<Rightarrow> None | Some d \<Rightarrow> digits_value (10 * acc + d) cs)"

definition DecimalDigits :: "string \<Rightarrow> nat option" where
  "DecimalDigits s = (if s = [] then None else digits_value 0 s)"

text \<open>
  The conversion of a string to a number that \<^verbatim>\<open>==\<close> applies when it compares a number
  with a string, on the integer literals: surrounding white space is dropped, the empty
  text is 0, and an optional sign precedes decimal digits. \<open>None\<close> is the value \<^verbatim>\<open>NaN\<close>.
  Ids are integers (they come from \<^verbatim>\<open>Date.now()\<close>) and a page address carries the
  decimal text of one; the literals with a fraction, an exponent or a radix prefix, and
  \<^verbatim>\<open>Infinity\<close>, belong to floating point and are read as \<open>None\<close> here.
\<close>

definition StringToNumber :: "string \<Rightarrow> int option" where
  "StringToNumber s =
     (let t = trim s
      in if t = [] then Some 0
         else (case t of
                 c # ds \<Rightarrow>
                   if c = CHR ''-'' then map_option (\<lambda>n. - int n) (DecimalDigits ds)
                   else if c = CHR ''+'' then map_option int (DecimalDigits ds)
                   else map_option int (DecimalDigits t)
               | [] \<Rightarrow> Some 0))"

subsection \<open>The data model\<close>

text \<open>The \<^verbatim>\<open>id\<close> property of a stored entry: absent, a number, or a string.\<close>

datatype ident = IdUndefined | IdNum int | IdStr string

text \<open>An instant, in milliseconds since the epoch; on the wire it is its ISO 8601 text
  (\<^verbatim>\<open>new Date().toISOString()\<close>).\<close>

type_synonym timestamp = nat

record book =
  book_id :: ident
  title :: "string option"
  author :: "string option"
  description :: "string option"
  coverImage :: "string option"
  review :: "string option"
  tags :: "string list option"
  status :: "string option"
  dateAdded :: "timestamp option"

text \<open>The library document, as posted by the page and as parsed from a response. The
  server's fallback answer \<^verbatim>\<open>{ books: [] }\<close> has the first three properties absent.\<close>

record document =
  library :: "string option"
  lastUpdated :: "timestamp option"
  totalBooks :: "nat option"
  books :: "book list option"

datatype js_error = TypeError | SyntaxError

text \<open>\<^verbatim>\<open>x == s\<close> for an id \<open>x\<close> and a string \<open>s\<close>: \<^verbatim>\<open>undefined\<close> equals no string, a number
  is compared with the number the string converts to, a string is compared as text.\<close>

fun loose_eq :: "ident \<Rightarrow> string \<Rightarrow> bool" where
  "loose_eq IdUndefined s = False"
| "loose_eq (IdNum n) s = (StringToNumber s = Some n)"
| "loose_eq (IdStr t) s = (t = s)"



text \<open>Truthiness of an optional string property.\<close>

fun truthy :: "string option \<Rightarrow> bool" where
  "truthy None = False"
| "truthy (Some s) = (s \<noteq> [])"

subsection \<open>The server (the two routes at the end of \<^verbatim>\<open>index.js\<close>)\<close>

text \<open>\<^verbatim>\<open>GET /books\<close>: the parsed file, or \<^verbatim>\<open>{ books: [] }\<close> when reading or parsing it
  throws. The file is \<open>None\<close> when it is absent or unreadable.\<close>

definition server_get :: "document option \<Rightarrow> document" where
  "server_get f =
     (case f of
        Some d \<Rightarrow> d
      | None \<Rightarrow> \<lparr>library = None, lastUpdated = None, totalBooks = None, books = Some []\<rparr>)"

text \<open>The body of an answer to \<^verbatim>\<open>POST /books\<close>: \<^verbatim>\<open>{ success: true }\<close> or
  \<^verbatim>\<open>{ error: message }\<close>.\<close>

datatype post_reply = SuccessTrue | ErrorMessage

text \<open>\<^verbatim>\<open>POST /books\<close>: the body replaces the file and the answer is 200; when the write
  throws the answer is 500 (the file is taken to be as before). The result is the new
  file, \<^verbatim>\<open>response.ok\<close> and the body of the answer. \<open>disk\<close> tells whether the write
  succeeds.\<close>

definition server_post ::
  "bool \<Rightarrow> document \<Rightarrow> document option \<Rightarrow> document option \<times> bool \<times> post_reply" where
  "server_post disk body f =
     (if disk then (Some body, True, SuccessTrue) else (f, False, ErrorMessage))"

subsection \<open>The world and the environment\<close>

datatype 'a promise = Rejected js_error | Resolved 'a

text \<open>A response: \<^verbatim>\<open>response.ok\<close> and the outcome of \<^verbatim>\<open>response.json()\<close>.\<close>

record 'a response =
  ok :: bool
  json :: "'a promise"

datatype request = GET | POST document

datatype url = Url string "(string \<times> string) list"

record world =
  books_json :: "document option"
  sent :: "request list"
  alerts :: "string list"
  confirms :: "string list"
  href :: "url option"
  focus :: "string option"
  form_reset :: bool

text \<open>What one request meets: it is answered, it never leaves, its answer is lost, or its
  answer arrives with a body that is not JSON.\<close>

datatype link = Up | Down | ReplyLost | ReplyGarbled

record env =
  get_link :: link
  post_link :: link
  disk_ok :: bool
  date_now :: int
  created_at :: timestamp
  saved_at :: timestamp
  confirmed :: bool

text \<open>\<^verbatim>\<open>fetch('/books')\<close>.\<close>

definition fetch_get :: "link \<Rightarrow> world \<Rightarrow> document response promise \<times> world" where
  "fetch_get l w =
     (let w' = w\<lparr>sent := sent w @ [GET]\<rparr>
      in case l of
           Up \<Rightarrow> (Resolved \<lparr>ok = True, json = Resolved (server_get (books_json w))\<rparr>, w')
         | ReplyGarbled \<Rightarrow> (Resolved \<lparr>ok = True, json = Rejected SyntaxError\<rparr>, w')
         | Down \<Rightarrow> (Rejected TypeError, w')
         | ReplyLost \<Rightarrow> (Rejected TypeError, w'))"

text \<open>\<^verbatim>\<open>fetch('/books', {method: 'POST', ..., body: JSON.stringify(dataToSave)})\<close>.\<close>

definition fetch_post ::
  "link \<Rightarrow> bool \<Rightarrow> document \<Rightarrow> world \<Rightarrow> post_reply response promise \<times> world" where
  "fetch_post l disk body w =
     (let w1 = w\<lparr>sent := sent w @ [POST body]\<rparr>
      in if l = Down then (Rejected TypeError, w1)
         else (let (f', accepted, reply) = server_post disk body (books_json w1);
                   w2 = w1\<lparr>books_json := f'\<rparr>
               in if l = ReplyLost then (Rejected TypeError, w2)
                  else (Resolved \<lparr>ok = accepted,
                                  json = (if l = ReplyGarbled then Rejected SyntaxError
                                          else Resolved reply)\<rparr>, w2)))"

subsection \<open>The persistence client (the shared script)\<close>

text \<open>The \<^verbatim>\<open>try\<close> block of \<^verbatim>\<open>loadBooks\<close>, from the outcome of the fetch:
  \<^verbatim>\<open>response.json()\<close> may reject, then \<^verbatim>\<open>data.books || []\<close>.\<close>

definition loadBooks_try :: "document response promise \<Rightarrow> js_error + book list" where
  "loadBooks_try fetched =
     (case fetched of
        Rejected e \<Rightarrow> Inl e
      | Resolved response \<Rightarrow>
          (case json response of
             Rejected e \<Rightarrow> Inl e
           | Resolved data \<Rightarrow> Inr (case books data of None \<Rightarrow> [] | Some bs \<Rightarrow> bs)))"

text \<open>\<^verbatim>\<open>loadBooks\<close> on the outcome of its fetch: the \<^verbatim>\<open>catch\<close> returns \<^verbatim>\<open>[]\<close>.\<close>

definition loadBooks_of :: "document response promise \<Rightarrow> book list" where
  "loadBooks_of fetched = (case loadBooks_try fetched of Inl error \<Rightarrow> [] | Inr bs \<Rightarrow> bs)"

definition loadBooks :: "link \<Rightarrow> world \<Rightarrow> book list \<times> world" where
  "loadBooks l w = (let (fetched, w') = fetch_get l w in (loadBooks_of fetched, w'))"

definition dataToSave :: "timestamp \<Rightarrow> book list \<Rightarrow> document" where
  "dataToSave now bs =
     \<lparr>library = Some ''Little Library'', lastUpdated = Some now,
      totalBooks = Some (length bs), books = Some bs\<rparr>"

text \<open>The \<^verbatim>\<open>try\<close> block of \<^verbatim>\<open>saveBooks\<close>, from the outcome of the fetch.\<close>

definition saveBooks_try :: "post_reply response promise \<Rightarrow> js_error + bool" where
  "saveBooks_try fetched =
     (case fetched of Rejected e \<Rightarrow> Inl e | Resolved response \<Rightarrow> Inr (ok response))"

definition saveBooks_of :: "post_reply response promise \<Rightarrow> bool" where
  "saveBooks_of fetched = (case saveBooks_try fetched of Inl error \<Rightarrow> False | Inr b \<Rightarrow> b)"

definition saveBooks :: "env \<Rightarrow> book list \<Rightarrow> world \<Rightarrow> bool \<times> world" where
  "saveBooks e bs w =
     (let (fetched, w') = fetch_post (post_link e) (disk_ok e) (dataToSave (saved_at e) bs) w
      in (saveBooks_of fetched, w'))"


subsection \<open>The list page (\<^verbatim>\<open>index.js\<close>)\<close>

text \<open>The cell of the bookshelf table. \<open>innerHTML\<close> keeps what the markup is built from:
  nothing yet, the message of the empty shelf (\<^verbatim>\<open><p>No books to display</p>\<close>), a cover
  image (its address) with the shortened title, the book glyph with the shortened title,
  or the question-mark glyph of an invalid entry.\<close>

datatype innerHTML =
    Blank
  | NoBooksMessage
  | CoverAndTitle string string
  | GlyphAndTitle string
  | ErrorGlyph

record cell =
  colSpan :: nat
  inner :: innerHTML
  textAlign :: string
  padding :: string
  cell_width :: string
  cell_height :: string
  align :: string
  verticalAlign :: string
  onclick :: "int option"
  cell_title :: string
  cursor :: string
  backgroundColor :: string

text \<open>A cell as \<^verbatim>\<open>insertCell()\<close> returns it.\<close>

definition insertCell :: cell where
  "insertCell =
     \<lparr>colSpan = 1, inner = Blank, textAlign = [], padding = [], cell_width = [],
      cell_height = [], align = [], verticalAlign = [], onclick = None, cell_title = [],
      cursor = [], backgroundColor = []\<rparr>"

text \<open>The page: the global variable \<^verbatim>\<open>books\<close>, the rows of \<^verbatim>\<open>bookshelf-table\<close>, the text
  of the heading and the \<^verbatim>\<open>display\<close> style of the two elements of the empty-library
  message (the markup is taken to have these elements).\<close>

record page =
  page_books :: "book list"
  table :: "cell list list"
  h3 :: string
  emptyTitle :: string
  emptyMessage :: string

text \<open>The callback of the filter in \<^verbatim>\<open>loadBooksForIndex\<close>; an entry is a record here, so
  \<^verbatim>\<open>book && typeof book === 'object'\<close> holds.\<close>

definition isValid :: "book \<Rightarrow> bool" where
  "isValid book = (case title book of None \<Rightarrow> False | Some t \<Rightarrow> t \<noteq> [] \<and> trim t \<noteq> [])"

text \<open>\<^verbatim>\<open>loadBooksForIndex\<close>, from the outcome of the fetch: the new value of \<^verbatim>\<open>books\<close>.
  Neither \<^verbatim>\<open>loadBooks\<close> nor the callback throws here, so the \<^verbatim>\<open>catch\<close> is not entered.\<close>

definition loadBooksForIndex :: "document response promise \<Rightarrow> book list" where
  "loadBooksForIndex fetched = filter isValid (loadBooks_of fetched)"

text \<open>\<^verbatim>\<open>array[i]\<close>: \<^verbatim>\<open>undefined\<close> out of range.\<close>

definition at_index :: "'a list \<Rightarrow> int \<Rightarrow> 'a option" where
  "at_index xs i = (if 0 \<le> i \<and> i < int (length xs) then Some (xs ! nat i) else None)"


text \<open>\<^verbatim>\<open>array.indexOf(x)\<close>: the first position of \<open>x\<close>, or -1. JavaScript compares objects
  by identity and books are values here: for a book of the array the position found holds
  an equal book, which \<^verbatim>\<open>showBookDetail\<close> sends to the same address.\<close>

fun indexOf_from :: "nat \<Rightarrow> 'a list \<Rightarrow> 'a \<Rightarrow> int" where
  "indexOf_from i [] x = - 1"
| "indexOf_from i (y # ys) x = (if y = x then int i else indexOf_from (Suc i) ys x)"

definition indexOf :: "'a list \<Rightarrow> 'a \<Rightarrow> int" where
  "indexOf xs x = indexOf_from 0 xs x"

definition booksPerRow :: nat where
  "booksPerRow = 8"

text \<open>The shortened title: \<^verbatim>\<open>title.length > n ? title.substring(0, n) + '...' : title\<close>.\<close>

definition shorten :: "nat \<Rightarrow> string \<Rightarrow> string" where
  "shorten n t = (if length t > n then substring0 t n @ ''...'' else t)"

text \<open>The body of the inner loop of \<^verbatim>\<open>updateBookshelf\<close> for the entry
  \<^verbatim>\<open>booksToShow[bookIndex]\<close> (\<open>None\<close> when that is \<^verbatim>\<open>undefined\<close>).\<close>

definition bookCell :: "book list \<Rightarrow> book option \<Rightarrow> cell" where
  "bookCell bs entry =
     (let c = insertCell\<lparr>cell_width := ''60'', cell_height := ''80'', align := ''center'',
                          verticalAlign := ''top'', padding := ''5px''\<rparr>
      in case entry of
           None \<Rightarrow> c\<lparr>inner := ErrorGlyph, cursor := ''default'', backgroundColor := ''#ffcccc''\<rparr>
         | Some book \<Rightarrow>
             if truthy (title book) then
               (let originalIndex = indexOf bs book;
                    t = trim (the (title book));
                    a = (if truthy (author book) then trim (the (author book)) else ''Unknown'');
                    c' = (if truthy (coverImage book) \<and> trim (the (coverImage book)) \<noteq> []
                          then c\<lparr>inner := CoverAndTitle (the (coverImage book)) (shorten 8 t)\<rparr>
                          else c\<lparr>inner := GlyphAndTitle (shorten 6 t)\<rparr>)
                in c'\<lparr>onclick := Some originalIndex, cell_title := t @ '' by '' @ a,
                       cursor := ''pointer'', backgroundColor := ''#e8f4f8''\<rparr>)
             else c\<lparr>inner := ErrorGlyph, cursor := ''default'', backgroundColor := ''#ffcccc''\<rparr>)"

text \<open>The inner loop: \<open>n\<close> cells, for the entries from \<open>bookIndex\<close> on.\<close>

fun row_cells :: "book list \<Rightarrow> book list \<Rightarrow> nat \<Rightarrow> nat \<Rightarrow> cell list" where
  "row_cells bs booksToShow bookIndex 0 = []"
| "row_cells bs booksToShow bookIndex (Suc n) =
     bookCell bs (at_index booksToShow (int bookIndex))
       # row_cells bs booksToShow (Suc bookIndex) n"

text \<open>The outer loop, with \<open>k\<close> rows still to make and \<open>bookIndex\<close> as the loop left it.\<close>

fun table_rows :: "book list \<Rightarrow> book list \<Rightarrow> nat \<Rightarrow> nat \<Rightarrow> cell list list" where
  "table_rows bs booksToShow 0 bookIndex = []"
| "table_rows bs booksToShow (Suc k) bookIndex =
     (let cellsInThisRow = min booksPerRow (length booksToShow - bookIndex)
      in row_cells bs booksToShow bookIndex cellsInThisRow
           # table_rows bs booksToShow k (bookIndex + cellsInThisRow))"

text \<open>The cell of the row that \<^verbatim>\<open>updateBookshelf\<close> makes for an empty list.\<close>

definition placeholder_cell :: cell where
  "placeholder_cell = insertCell\<lparr>colSpan := booksPerRow, inner := NoBooksMessage,
                                 textAlign := ''center'', padding := ''20px''\<rparr>"

text \<open>\<^verbatim>\<open>Math.ceil(a / b)\<close> on two array sizes.\<close>

definition ceil_quotient :: "nat \<Rightarrow> nat \<Rightarrow> nat" where
  "ceil_quotient a b = nat \<lceil>(of_nat a :: rat) / of_nat b\<rceil>"

text \<open>\<^verbatim>\<open>updateBookshelf(booksToShow)\<close>, with the global \<^verbatim>\<open>books\<close> as \<open>bs\<close>: the rows of the
  table after the call.\<close>

definition updateBookshelf :: "book list \<Rightarrow> book list \<Rightarrow> cell list list" where
  "updateBookshelf bs booksToShow =
     (if length booksToShow = 0 then [[placeholder_cell]]
      else (let totalRows = ceil_quotient (length booksToShow) booksPerRow
            in table_rows bs booksToShow totalRows 0))"

definition updateDisplay :: "page \<Rightarrow> page" where
  "updateDisplay p =
     p\<lparr>h3 := ''Your Library ('' @ decimal (length (page_books p)) @ '' books)'',
       emptyTitle := (if length (page_books p) = 0 then ''block'' else ''none''),
       emptyMessage := (if length (page_books p) = 0 then ''block'' else ''none''),
       table := updateBookshelf (page_books p) (page_books p)\<rparr>"

text \<open>The callback of the filter in \<^verbatim>\<open>searchBooks\<close>. \<^verbatim>\<open>book.title.toLowerCase()\<close> throws
  when the title is absent.\<close>

definition matchesQuery :: "string \<Rightarrow> book \<Rightarrow> js_error + bool" where
  "matchesQuery query book =
     (let searchTerm = toLowerCase query
      in case title book of
           None \<Rightarrow> Inl TypeError
         | Some t \<Rightarrow>
             (let titleMatch = includes_js (toLowerCase t) searchTerm;
                  authorMatch = (truthy (author book)
                                 \<and> includes_js (toLowerCase (the (author book))) searchTerm);
                  tagMatch = (case tags book of
                                None \<Rightarrow> False
                              | Some ts \<Rightarrow> list_ex (\<lambda>tag. includes_js (toLowerCase tag) searchTerm) ts)
              in Inr (titleMatch \<or> authorMatch \<or> tagMatch)))"

text \<open>\<^verbatim>\<open>array.filter(callback)\<close> with a callback that may throw.\<close>

fun filter_js :: "('a \<Rightarrow> js_error + bool) \<Rightarrow> 'a list \<Rightarrow> js_error + 'a list" where
  "filter_js f [] = Inr []"
| "filter_js f (x # xs) =
     (case f x of
        Inl e \<Rightarrow> Inl e
      | Inr keep \<Rightarrow>
          (case filter_js f xs of
             Inl e \<Rightarrow> Inl e
           | Inr ys \<Rightarrow> Inr (if keep then x # ys else ys)))"

text \<open>\<^verbatim>\<open>searchBooks(query)\<close>: the page after the call, or the exception it ends with.\<close>

definition searchBooks :: "string \<Rightarrow> page \<Rightarrow> js_error + page" where
  "searchBooks query p =
     (if trim query = [] then Inr (updateDisplay p)
      else (case filter_js (matchesQuery query) (page_books p) of
              Inl e \<Rightarrow> Inl e
            | Inr filteredBooks \<Rightarrow>
                Inr (p\<lparr>table := updateBookshelf (page_books p) filteredBooks\<rparr>)))"

text \<open>The page before its scripts have run: \<^verbatim>\<open>let books = []\<close> and an empty table.\<close>

definition initial_page :: page where
  "initial_page = \<lparr>page_books = [], table = [], h3 = [], emptyTitle = [], emptyMessage = []\<rparr>"

text \<open>The \<^verbatim>\<open>DOMContentLoaded\<close> handler.\<close>

definition onDOMContentLoaded :: "document response promise \<Rightarrow> page \<Rightarrow> page" where
  "onDOMContentLoaded fetched p = updateDisplay (p\<lparr>page_books := loadBooksForIndex fetched\<rparr>)"

text \<open>The \<^verbatim>\<open>focus\<close> handler of the window.\<close>

definition onFocus :: "document response promise \<Rightarrow> page \<Rightarrow> page" where
  "onFocus fetched p =
     (let oldBooksLength = length (page_books p);
          p' = p\<lparr>page_books := loadBooksForIndex fetched\<rparr>
      in if length (page_books p') \<noteq> oldBooksLength then updateDisplay p' else p')"

subsection \<open>The detail page\<close>













subsection \<open>The add-book page (\<^verbatim>\<open>addBook.js\<close>)\<close>




subsection \<open>The words of the specification\<close>

text \<open>\<open>q\<close> is a case-insensitive substring of \<open>s\<close>: lowered, \<open>q\<close> occurs in the lowered \<open>s\<close>
  as a block of consecutive characters.\<close>

definition ci_substring :: "string \<Rightarrow> string \<Rightarrow> bool" where
  "ci_substring q s = sublist (toLowerCase q) (toLowerCase s)"

text \<open>The query is a case-insensitive substring of the title, of the author, or of some
  tag of the book.\<close>

definition query_matches :: "string \<Rightarrow> book \<Rightarrow> bool" where
  "query_matches q b =
     ((\<exists>t. title b = Some t \<and> ci_substring q t) \<or>
      (\<exists>a. author b = Some a \<and> ci_substring q a) \<or>
      (\<exists>ts tag. tags b = Some ts \<and> tag \<in> set ts \<and> ci_substring q tag))"

text \<open>A book of the collection carries the identifier of the page address.\<close>

definition has_id :: "string \<Rightarrow> book \<Rightarrow> bool" where
  "has_id bookId b = loose_eq (book_id b) bookId"


text \<open>The page holds valid books only and its table shows no error-styled cell.\<close>

definition only_book_cells :: "page \<Rightarrow> bool" where
  "only_book_cells p =
     (list_all isValid (page_books p)
      \<and> list_all (\<lambda>c. inner c \<noteq> ErrorGlyph) (concat (table p)))"

text \<open>The answer to \<^verbatim>\<open>GET /books\<close> that carries the collection \<open>bs\<close>.\<close>

definition answer_with :: "book list \<Rightarrow> document response promise" where
  "answer_with bs =
     Resolved \<lparr>ok = True,
               json = Resolved \<lparr>library = Some ''Little Library'', lastUpdated = Some 0,
                                 totalBooks = Some (length bs), books = Some bs\<rparr>\<rparr>"

subsection \<open>Sample data\<close>

definition dune :: book where
  "dune = \<lparr>book_id = IdNum 1, title = Some ''Dune'', author = Some ''Herbert'',
           description = None, coverImage = None, review = None, tags = Some [''scifi''],
           status = Some ''want to read'', dateAdded = Some 0\<rparr>"

definition emma :: book where
  "emma = \<lparr>book_id = IdNum 2, title = Some ''Emma'', author = Some ''Austen'',
           description = None, coverImage = None, review = None, tags = Some [''classic''],
           status = Some ''read'', dateAdded = Some 0\<rparr>"


text \<open>An entry without a title.\<close>

definition untitled :: book where
  "untitled = \<lparr>book_id = IdNum 3, title = None, author = Some ''Nobody'',
               description = None, coverImage = None, review = None, tags = None,
               status = None, dateAdded = None\<rparr>"

definition quiet_world :: world where
  "quiet_world = \<lparr>books_json = Some (dataToSave 0 [dune, emma]), sent = [], alerts = [],
                  confirms = [], href = None, focus = None, form_reset = False\<rparr>"

definition fair_env :: env where
  "fair_env = \<lparr>get_link = Up, post_link = Up, disk_ok = True, date_now = 1700000000000,
               created_at = 1700000000000, saved_at = 1700000000005, confirmed = True\<rparr>"


section \<open>Properties\<close>

subsection \<open>Strings, numbers and lists\<close>

lemmas string_eval = toLowerCase_def toLowerChar_def upperLetters_def lowerLetters_def
  trim_def isWhiteSpace_def

lemma includes_js_sublist: "includes_js hay needle \<longleftrightarrow> sublist needle hay"
  by (induction hay) (auto simp: sublist_Cons_right)

lemma trim_Nil [simp]: "trim [] = []"
  by (simp add: trim_def)

lemma toLowerCase_Nil_iff [simp]: "toLowerCase s = [] \<longleftrightarrow> s = []"
  by (simp add: toLowerCase_def)

lemma toLowerCase_Nil [simp]: "toLowerCase [] = []"
  by (simp add: toLowerCase_def)

lemma matchesQuery_valid:
  assumes "isValid b" and "trim query \<noteq> []"
  shows "matchesQuery query b = Inr (query_matches query b)"
proof -
  from assms(2) have q: "query \<noteq> []" by auto
  from assms(1) obtain t where t: "title b = Some t"
    by (auto simp: isValid_def split: option.splits)
  have author: "(truthy (author b) \<and> includes_js (toLowerCase (the (author b))) (toLowerCase query))
      \<longleftrightarrow> (\<exists>a. author b = Some a \<and> ci_substring query a)"
    using q by (cases "author b") (auto simp: includes_js_sublist ci_substring_def)
  have tagm: "(case tags b of None \<Rightarrow> False
      | Some ts \<Rightarrow> list_ex (\<lambda>tag. includes_js (toLowerCase tag) (toLowerCase query)) ts)
      \<longleftrightarrow> (\<exists>ts tag. tags b = Some ts \<and> tag \<in> set ts \<and> ci_substring query tag)"
    by (cases "tags b") (auto simp: includes_js_sublist ci_substring_def list_ex_iff)
  show ?thesis
    unfolding matchesQuery_def Let_def query_matches_def
    using t author tagm by (simp add: includes_js_sublist ci_substring_def)
qed

lemma filter_js_total:
  assumes "\<And>x. x \<in> set xs \<Longrightarrow> f x = Inr (P x)"
  shows "filter_js f xs = Inr (filter P xs)"
  using assms by (induction xs) auto
















subsection \<open>The grid loops\<close>

lemma ceil8_lower: "8 * ((n + 7) div 8) \<le> (n::nat) + 7"
  by simp

lemma ceil8_upper: "(n::nat) \<le> 8 * ((n + 7) div 8)"
proof -
  have "n + 7 < 8 + 8 * ((n + 7) div 8)" by (rule dividend_less_times_div) simp
  then show ?thesis by linarith
qed

lemma ceil8_last:
  assumes "0 < (n::nat)"
  shows "min 8 (n - (0 + 8 * ((n + 7) div 8 - 1))) = (if n mod 8 = 0 then 8 else n mod 8)"
proof -
  define q r where "q = n div 8" and "r = n mod 8"
  have n: "n = 8 * q + r" and r: "r < 8" by (simp_all add: q_def r_def)
  show ?thesis
  proof (cases "r = 0")
    case True
    then have "q > 0" using assms n by simp
    have "(8 * q + 7) div 8 = q"
      by (rule Euclidean_Rings.div_nat_eqI) simp_all
    then have k: "(n + 7) div 8 = q" using n True by simp
    have "n - 8 * (q - 1) = 8" using \<open>q > 0\<close> n True by (cases q) simp_all
    then show ?thesis using True r_def by (simp add: k)
  next
    case False
    have "(8 * q + r + 7) div 8 = q + 1"
      by (rule Euclidean_Rings.div_nat_eqI) (use False r in simp_all)
    then have k: "(n + 7) div 8 = q + 1" using n by simp
    have "n - 8 * q = r" using n by simp
    then show ?thesis using False r r_def by (simp add: k)
  qed
qed

lemma ceil8_full:
  assumes "Suc j < ((n::nat) + 7) div 8"
  shows "8 \<le> n - 8 * j"
proof -
  have a: "8 * ((n + 7) div 8) \<le> n + 7" by simp
  have "j + 2 \<le> (n + 7) div 8" using assms by simp
  then have b: "8 * j + 16 \<le> 8 * ((n + 7) div 8)" by simp
  from a b have "8 * j + 16 \<le> n + 7" by (rule_tac order_trans)
  then show ?thesis by simp
qed



lemma ceil_quotient_8: "ceil_quotient n 8 = (n + 7) div 8"
proof -
  have "\<lceil>(of_nat n :: rat) / of_nat 8\<rceil> = \<lceil>(of_int (int n) :: rat) / of_int 8\<rceil>" by simp
  also have "\<dots> = - (- int n div 8)" by (rule ceiling_divide_eq_div)
  also have "\<dots> = int ((n + 7) div 8)" by linarith
  finally show ?thesis by (simp add: ceil_quotient_def)
qed

lemma row_cells_map:
  "i + n \<le> length xs \<Longrightarrow>
   row_cells bs xs i n = map (\<lambda>b. bookCell bs (Some b)) (take n (drop i xs))"
proof (induction n arbitrary: i)
  case 0
  then show ?case by simp
next
  case (Suc n)
  then have "i < length xs" by simp
  then have "drop i xs = xs ! i # drop (Suc i) xs" by (simp add: Cons_nth_drop_Suc)
  with Suc show ?case by (simp add: at_index_def)
qed

lemma length_row_cells [simp]: "length (row_cells bs xs i n) = n"
  by (induction n arbitrary: i) auto

lemma length_table_rows [simp]: "length (table_rows bs xs k i) = k"
  by (induction k arbitrary: i) (auto simp: Let_def)

lemma concat_table_rows:
  "i \<le> length xs \<Longrightarrow>
   concat (table_rows bs xs k i) = map (\<lambda>b. bookCell bs (Some b)) (take (8 * k) (drop i xs))"
proof (induction k arbitrary: i)
  case 0
  then show ?case by simp
next
  case (Suc k)
  let ?c = "min booksPerRow (length xs - i)"
  have le: "i + ?c \<le> length xs" using Suc.prems by simp
  have row: "row_cells bs xs i ?c = map (\<lambda>b. bookCell bs (Some b)) (take ?c (drop i xs))"
    by (rule row_cells_map[OF le])
  have rest: "concat (table_rows bs xs k (i + ?c))
      = map (\<lambda>b. bookCell bs (Some b)) (take (8 * k) (drop (i + ?c) xs))"
    by (rule Suc.IH[OF le])
  have "take (8 * Suc k) (drop i xs) = take ?c (drop i xs) @ take (8 * k) (drop (i + ?c) xs)"
  proof (cases "8 \<le> length xs - i")
    case True
    then have c: "?c = 8" by (simp add: booksPerRow_def)
    have "take (8 + 8 * k) (drop i xs) = take 8 (drop i xs) @ take (8 * k) (drop 8 (drop i xs))"
      by (rule take_add)
    then show ?thesis by (simp add: c add.commute)
  next
    case False
    then have c: "?c = length xs - i" by (simp add: booksPerRow_def)
    have "length xs - i < 8" using False by simp
    then show ?thesis using Suc.prems by (simp add: c)
  qed
  then show ?case by (simp add: Let_def row rest)
qed

lemma row_length_table_rows:
  "j < k \<Longrightarrow> i \<le> length xs \<Longrightarrow>
   length (table_rows bs xs k i ! j) = min 8 (length xs - (i + 8 * j))"
proof (induction k arbitrary: i j)
  case 0
  then show ?case by simp
next
  case (Suc k)
  let ?c = "min booksPerRow (length xs - i)"
  show ?case
  proof (cases j)
    case 0
    then show ?thesis by (simp add: Let_def booksPerRow_def)
  next
    case (Suc j')
    have le: "i + ?c \<le> length xs" using Suc.prems by simp
    have "length (table_rows bs xs k (i + ?c) ! j') = min 8 (length xs - (i + ?c + 8 * j'))"
      using Suc.IH[of j' "i + ?c"] Suc.prems Suc le by simp
    moreover have "length xs - (i + ?c + 8 * j') = length xs - (i + 8 * Suc j')"
      unfolding booksPerRow_def min_def by (cases "8 \<le> length xs - i") simp_all
    ultimately show ?thesis using Suc by (simp add: Let_def)
  qed
qed

lemma concat_updateBookshelf:
  "concat (updateBookshelf bs shown)
     = (if shown = [] then [placeholder_cell] else map (\<lambda>b. bookCell bs (Some b)) shown)"
proof (cases "shown = []")
  case True
  then show ?thesis by (simp add: updateBookshelf_def placeholder_cell_def)
next
  case False
  have "length shown \<le> 8 * ((length shown + 7) div 8)" by (rule ceil8_upper)
  then show ?thesis
    using False by (simp add: updateBookshelf_def booksPerRow_def ceil_quotient_8 concat_table_rows)
qed

lemma inner_bookCell_error:
  "inner (bookCell bs (Some b)) = ErrorGlyph \<longleftrightarrow> \<not> truthy (title b)"
  by (simp add: bookCell_def Let_def insertCell_def)

lemma isValid_truthy: "isValid b \<Longrightarrow> truthy (title b)"
  by (cases "title b") (simp_all add: isValid_def)

lemma no_error_cells_of_valid:
  assumes "list_all isValid shown"
  shows "list_all (\<lambda>c. inner c \<noteq> ErrorGlyph) (concat (updateBookshelf bs shown))"
  using assms
  by (auto simp: concat_updateBookshelf placeholder_cell_def insertCell_def list_all_iff
        inner_bookCell_error isValid_truthy)

lemma filter_js_sub:
  "filter_js f xs = Inr ys \<Longrightarrow> set ys \<subseteq> set xs"
proof (induction xs arbitrary: ys)
  case Nil
  then show ?case by simp
next
  case (Cons x xs)
  then show ?case by (auto split: sum.splits if_splits)
qed

lemma only_book_cells_updateDisplay:
  "list_all isValid (page_books p) \<Longrightarrow> only_book_cells (updateDisplay p)"
  by (simp add: only_book_cells_def updateDisplay_def no_error_cells_of_valid)

lemma loadBooksForIndex_answer:
  "loadBooksForIndex (answer_with bs) = filter isValid bs"
  by (simp add: loadBooksForIndex_def loadBooks_of_def loadBooks_try_def answer_with_def)

lemma isValid_samples [simp]: "isValid dune" "isValid emma" "\<not> isValid untitled"
  by (simp_all add: isValid_def dune_def emma_def untitled_def string_eval)

lemma ceil_quotient_small [simp]: "ceil_quotient (Suc 0) booksPerRow = 1"
  "ceil_quotient 2 booksPerRow = 1"
  by (simp_all add: booksPerRow_def ceil_quotient_8)

lemma dune_neq_emma [simp]: "dune \<noteq> emma" "emma \<noteq> dune"
  by (simp_all add: dune_def emma_def)

lemma table_one:
  "updateBookshelf bs [b] = [[bookCell bs (Some b)]]"
  by (simp add: updateBookshelf_def Let_def booksPerRow_def ceil_quotient_8 at_index_def)

lemma inner_dune: "inner (bookCell bs (Some dune)) = GlyphAndTitle ''Dune''"
  by (simp add: bookCell_def Let_def dune_def insertCell_def shorten_def string_eval)

lemma inner_emma: "inner (bookCell bs (Some emma)) = GlyphAndTitle ''Emma''"
  by (simp add: bookCell_def Let_def emma_def insertCell_def shorten_def string_eval)

subsection \<open>The handlers of the detail page, path by path\<close>



























lemma loadBooks_quiet [simp]: "fst (loadBooks Up quiet_world) = [dune, emma]"
  by (simp add: loadBooks_def fetch_get_def loadBooks_of_def loadBooks_try_def server_get_def
        quiet_world_def dataToSave_def)

lemma fair_env_simps [simp]:
  "get_link fair_env = Up" "post_link fair_env = Up" "disk_ok fair_env" "confirmed fair_env"
  "saved_at fair_env = 1700000000005"
  by (simp_all add: fair_env_def)

lemma quiet_world_simps [simp]:
  "sent quiet_world = []" "alerts quiet_world = []" "confirms quiet_world = []"
  "href quiet_world = None" "books_json quiet_world = Some (dataToSave 0 [dune, emma])"
  by (simp_all add: quiet_world_def)

lemma StringToNumber_samples [simp]:
  "StringToNumber [] = Some 0" "StringToNumber ''1'' = Some 1" "StringToNumber ''2'' = Some 2"
  "StringToNumber ''7'' = Some 7"
  by (simp_all add: StringToNumber_def DecimalDigits_def digit_value_def string_eval upt_rec)

lemma has_id_samples [simp]:
  "has_id ''2'' emma" "\<not> has_id ''2'' dune" "\<not> has_id ''7'' dune" "\<not> has_id ''7'' emma"
  "\<not> has_id [] dune" "\<not> has_id [] emma" "has_id ''1'' dune" "\<not> has_id ''1'' emma"
  by (simp_all add: has_id_def dune_def emma_def)

subsection \<open>Search\<close>

text \<open>
  Claim C1. On a collection the list page has loaded, \<^verbatim>\<open>searchBooks\<close> ends without an
  exception and hands the renderer a list \<open>shown\<close> of books. When the query is empty or
  only white space, \<open>shown\<close> is the whole collection, unchanged and in order. Otherwise
  \<open>shown\<close> holds exactly the books of the collection of which the query is a
  case-insensitive substring of the title, of the author or of some tag: it is the
  collection filtered by that condition. In both cases \<open>shown\<close> is a subsequence of the
  collection, in its order.
\<close>

theorem search_is_case_insensitive_substring_filter:
  assumes "page_books p = loadBooksForIndex fetched"
  shows "\<exists>shown p'. searchBooks query p = Inr p'
           \<and> table p' = updateBookshelf (page_books p) shown
           \<and> page_books p' = page_books p
           \<and> (trim query = [] \<longrightarrow> shown = page_books p)
           \<and> (trim query \<noteq> [] \<longrightarrow>
                 shown = filter (query_matches query) (page_books p)
                 \<and> (\<forall>b. b \<in> set shown \<longleftrightarrow> b \<in> set (page_books p) \<and> query_matches query b))
           \<and> subseq shown (page_books p)"
proof (cases "trim query = []")
  case True
  then show ?thesis
    by (intro exI[of _ "page_books p"] exI[of _ "updateDisplay p"])
       (simp add: searchBooks_def updateDisplay_def)
next
  case False
  have valid: "\<And>b. b \<in> set (page_books p) \<Longrightarrow> isValid b"
    using assms by (simp add: loadBooksForIndex_def)
  have "filter_js (matchesQuery query) (page_books p)
          = Inr (filter (query_matches query) (page_books p))"
    by (rule filter_js_total) (simp add: matchesQuery_valid valid False)
  with False show ?thesis
    by (intro exI[of _ "filter (query_matches query) (page_books p)"]
          exI[of _ "p\<lparr>table := updateBookshelf (page_books p)
                       (filter (query_matches query) (page_books p))\<rparr>"])
       (simp add: searchBooks_def)
qed

theorem search_is_case_insensitive_substring_filter_witness:
  "page_books (initial_page\<lparr>page_books := [dune, emma]\<rparr>)
     = loadBooksForIndex (answer_with [dune, untitled, emma])
   \<and> trim ''HERB'' \<noteq> []
   \<and> (\<exists>p'. searchBooks ''HERB'' (initial_page\<lparr>page_books := [dune, emma]\<rparr>) = Inr p'
           \<and> table p' = updateBookshelf [dune, emma] [dune])
   \<and> trim ''  '' = []
   \<and> (\<exists>p'. searchBooks ''  '' (initial_page\<lparr>page_books := [dune, emma]\<rparr>) = Inr p'
           \<and> table p' = updateBookshelf [dune, emma] [dune, emma])"
proof -
  let ?p = "initial_page\<lparr>page_books := [dune, emma]\<rparr>"
  have loaded: "page_books ?p = loadBooksForIndex (answer_with [dune, untitled, emma])"
    by (simp add: loadBooksForIndex_def loadBooks_of_def loadBooks_try_def answer_with_def
          isValid_def dune_def emma_def untitled_def string_eval)
  have q: "trim ''HERB'' \<noteq> []" "trim ''  '' = []"
    by (simp_all add: string_eval)
  have m: "filter (query_matches ''HERB'') [dune, emma] = [dune]"
    by (simp add: query_matches_def ci_substring_def dune_def emma_def string_eval sublist_Cons_right)
  show ?thesis
    using search_is_case_insensitive_substring_filter[OF loaded, of "''HERB''"]
      search_is_case_insensitive_substring_filter[OF loaded, of "''  ''"] loaded q m
    by auto
qed

subsection \<open>The grid\<close>

text \<open>
  Claim C2. For an empty list \<^verbatim>\<open>updateBookshelf\<close> renders exactly one row with a single
  cell that spans the 8 columns and shows the "no books" message. For a list of \<open>N > 0\<close>
  books it renders \<open>ceil(N/8)\<close> rows whose cells, read row after row, are the cells of the
  books in input order; every row but the last has 8 cells and the last has \<open>N mod 8\<close>
  cells, or 8 when \<open>N\<close> is a multiple of 8.
\<close>

theorem bookshelf_rows_of_eight:
  "updateBookshelf bs [] =
     [[insertCell\<lparr>colSpan := 8, inner := NoBooksMessage, textAlign := ''center'',
                  padding := ''20px''\<rparr>]]
   \<and> (shown \<noteq> [] \<longrightarrow>
        length (updateBookshelf bs shown) = nat \<lceil>(of_nat (length shown) :: rat) / 8\<rceil>
      \<and> concat (updateBookshelf bs shown) = map (\<lambda>b. bookCell bs (Some b)) shown
      \<and> (\<forall>j. Suc j < length (updateBookshelf bs shown) \<longrightarrow>
             length (updateBookshelf bs shown ! j) = 8)
      \<and> length (last (updateBookshelf bs shown))
          = (if length shown mod 8 = 0 then 8 else length shown mod 8))"
proof (intro conjI impI allI)
  show "updateBookshelf bs [] =
     [[insertCell\<lparr>colSpan := 8, inner := NoBooksMessage, textAlign := ''center'',
                  padding := ''20px''\<rparr>]]"
    by (simp add: updateBookshelf_def placeholder_cell_def booksPerRow_def)
next
  assume ne: "shown \<noteq> []"
  let ?k = "(length shown + 7) div 8"
  have ub: "updateBookshelf bs shown = table_rows bs shown ?k 0"
    using ne by (simp add: updateBookshelf_def booksPerRow_def ceil_quotient_8)
  have pos: "0 < length shown" using ne by simp
  have kpos: "0 < ?k" using pos ceil8_upper[of "length shown"] by (cases "?k = 0") simp_all
  show "length (updateBookshelf bs shown) = nat \<lceil>(of_nat (length shown) :: rat) / 8\<rceil>"
    using ceil_quotient_8[of "length shown"] by (simp add: ub ceil_quotient_def)
  show "concat (updateBookshelf bs shown) = map (\<lambda>b. bookCell bs (Some b)) shown"
  proof -
    have "length shown \<le> 8 * ?k" by (rule ceil8_upper)
    then show ?thesis by (simp add: ub concat_table_rows)
  qed
  show "length (last (updateBookshelf bs shown))
          = (if length shown mod 8 = 0 then 8 else length shown mod 8)"
  proof -
    have "length (table_rows bs shown ?k 0) \<noteq> 0" using kpos by simp
    then have "table_rows bs shown ?k 0 \<noteq> []" by (simp del: length_table_rows)
    then have "last (table_rows bs shown ?k 0) = table_rows bs shown ?k 0 ! (?k - 1)"
      using last_conv_nth[of "table_rows bs shown ?k 0"] by simp
    moreover have "length (table_rows bs shown ?k 0 ! (?k - 1))
        = min 8 (length shown - (0 + 8 * (?k - 1)))"
      by (rule row_length_table_rows) (use kpos in simp_all)
    moreover have "min 8 (length shown - (0 + 8 * (?k - 1)))
        = (if length shown mod 8 = 0 then 8 else length shown mod 8)"
      by (rule ceil8_last[OF pos])
    ultimately show ?thesis by (simp add: ub)
  qed
  fix j
  assume "Suc j < length (updateBookshelf bs shown)"
  then have j: "Suc j < ?k" by (simp add: ub)
  then have "length (table_rows bs shown ?k 0 ! j) = min 8 (length shown - (0 + 8 * j))"
    by (intro row_length_table_rows) simp_all
  moreover have "8 \<le> length shown - 8 * j" by (rule ceil8_full[OF j])
  ultimately show "length (updateBookshelf bs shown ! j) = 8" by (simp add: ub)
qed

theorem bookshelf_rows_of_eight_witness:
  "replicate 9 dune \<noteq> []
   \<and> length (updateBookshelf [dune] (replicate 9 dune)) = 2
   \<and> length (updateBookshelf [dune] (replicate 9 dune) ! 0) = 8
   \<and> length (last (updateBookshelf [dune] (replicate 9 dune))) = 1"
proof -
  have c: "nat \<lceil>(of_nat 9 :: rat) / 8\<rceil> = 2"
    using ceil_quotient_8[of 9] by (simp add: ceil_quotient_def)
  show ?thesis
    using bookshelf_rows_of_eight[of "[dune]" "replicate 9 dune"] c by simp
qed

text \<open>
  Claim C6, as amended. The list page discards the entries that fail the validity test
  when it loads the collection, so an entry without a title never reaches the grid: after
  loading, the page holds the valid entries and its table shows their cells (or the
  "no books" cell), none of them error-styled, and the \<^verbatim>\<open>focus\<close> handler and
  \<^verbatim>\<open>searchBooks\<close> keep it so. The renderer itself, handed a list, renders the entry at
  each position as one cell, error-styled exactly when the entry has no title: the
  question-mark glyph on the background \<^verbatim>\<open>#ffcccc\<close>, with no click handler.
\<close>

theorem malformed_entries_dropped_before_the_grid:
  "page_books (onDOMContentLoaded fetched p) = filter isValid (loadBooks_of fetched)
   \<and> concat (table (onDOMContentLoaded fetched p))
       = (if filter isValid (loadBooks_of fetched) = [] then [placeholder_cell]
          else map (\<lambda>b. bookCell (filter isValid (loadBooks_of fetched)) (Some b))
                 (filter isValid (loadBooks_of fetched)))
   \<and> only_book_cells (onDOMContentLoaded fetched p)
   \<and> (only_book_cells p \<longrightarrow> only_book_cells (onFocus fetched p))
   \<and> (only_book_cells p \<and> searchBooks query p = Inr p' \<longrightarrow> only_book_cells p')
   \<and> (\<forall>i < length shown.
         concat (updateBookshelf bs shown) ! i = bookCell bs (Some (shown ! i))
         \<and> (inner (bookCell bs (Some (shown ! i))) = ErrorGlyph \<longleftrightarrow> \<not> truthy (title (shown ! i))))
   \<and> (\<not> truthy (title b) \<longrightarrow>
         inner (bookCell bs (Some b)) = ErrorGlyph
         \<and> backgroundColor (bookCell bs (Some b)) = ''#ffcccc''
         \<and> cursor (bookCell bs (Some b)) = ''default''
         \<and> onclick (bookCell bs (Some b)) = None)"
proof (intro conjI impI allI)
  show "page_books (onDOMContentLoaded fetched p) = filter isValid (loadBooks_of fetched)"
    by (simp add: onDOMContentLoaded_def updateDisplay_def loadBooksForIndex_def)
  show "concat (table (onDOMContentLoaded fetched p))
       = (if filter isValid (loadBooks_of fetched) = [] then [placeholder_cell]
          else map (\<lambda>b. bookCell (filter isValid (loadBooks_of fetched)) (Some b))
                 (filter isValid (loadBooks_of fetched)))"
    by (simp add: onDOMContentLoaded_def updateDisplay_def loadBooksForIndex_def
          concat_updateBookshelf)
  show "only_book_cells (onDOMContentLoaded fetched p)"
    unfolding onDOMContentLoaded_def
    by (rule only_book_cells_updateDisplay) (simp add: loadBooksForIndex_def list_all_iff)
  show "only_book_cells (onFocus fetched p)" if "only_book_cells p"
  proof (cases "length (loadBooksForIndex fetched) = length (page_books p)")
    case True
    then show ?thesis
      using that by (simp add: onFocus_def Let_def only_book_cells_def loadBooksForIndex_def
          list_all_iff)
  next
    case False
    have "only_book_cells (updateDisplay (p\<lparr>page_books := loadBooksForIndex fetched\<rparr>))"
      by (rule only_book_cells_updateDisplay) (simp add: loadBooksForIndex_def list_all_iff)
    then show ?thesis using False by (simp add: onFocus_def Let_def)
  qed
  show "only_book_cells p'" if h: "only_book_cells p \<and> searchBooks query p = Inr p'"
  proof (cases "trim query = []")
    case True
    then have "p' = updateDisplay p" using h by (simp add: searchBooks_def)
    moreover have "list_all isValid (page_books p)" using h by (simp add: only_book_cells_def)
    ultimately show ?thesis by (simp add: only_book_cells_updateDisplay)
  next
    case False
    then obtain fb where fb: "filter_js (matchesQuery query) (page_books p) = Inr fb"
      and p': "p' = p\<lparr>table := updateBookshelf (page_books p) fb\<rparr>"
      using h by (auto simp: searchBooks_def split: sum.splits)
    have "set fb \<subseteq> set (page_books p)" by (rule filter_js_sub[OF fb])
    then have "list_all isValid fb" using h by (auto simp: only_book_cells_def list_all_iff)
    then show ?thesis
      using h by (simp add: p' only_book_cells_def no_error_cells_of_valid)
  qed
  show "inner (bookCell bs (Some b)) = ErrorGlyph" if "\<not> truthy (title b)"
    using that by (simp add: inner_bookCell_error)
  show "backgroundColor (bookCell bs (Some b)) = ''#ffcccc''" if "\<not> truthy (title b)"
    using that by (simp add: bookCell_def Let_def)
  show "cursor (bookCell bs (Some b)) = ''default''" if "\<not> truthy (title b)"
    using that by (simp add: bookCell_def Let_def)
  show "onclick (bookCell bs (Some b)) = None" if "\<not> truthy (title b)"
    using that by (simp add: bookCell_def Let_def insertCell_def)
  fix i
  assume i: "i < length shown"
  then have "shown \<noteq> []" by auto
  then show "concat (updateBookshelf bs shown) ! i = bookCell bs (Some (shown ! i))"
    using i by (simp add: concat_updateBookshelf)
  show "inner (bookCell bs (Some (shown ! i))) = ErrorGlyph \<longleftrightarrow> \<not> truthy (title (shown ! i))"
    by (rule inner_bookCell_error)
qed

theorem malformed_entries_dropped_before_the_grid_witness:
  "\<not> truthy (title untitled)
   \<and> page_books (onDOMContentLoaded (answer_with [dune, untitled]) initial_page) = [dune]
   \<and> concat (table (onDOMContentLoaded (answer_with [dune, untitled]) initial_page))
       = [bookCell [dune] (Some dune)]
   \<and> only_book_cells (onDOMContentLoaded (answer_with [dune, untitled]) initial_page)
   \<and> only_book_cells (onFocus (answer_with [untitled])
        (onDOMContentLoaded (answer_with [dune, untitled]) initial_page))
   \<and> (\<exists>p'. searchBooks ''une'' (onDOMContentLoaded (answer_with [dune, untitled]) initial_page)
               = Inr p' \<and> only_book_cells p')
   \<and> concat (updateBookshelf [dune, untitled] [dune, untitled]) ! 1
       = bookCell [dune, untitled] (Some untitled)
   \<and> inner (bookCell [dune, untitled] (Some untitled)) = ErrorGlyph
   \<and> backgroundColor (bookCell [dune, untitled] (Some untitled)) = ''#ffcccc''"
proof -
  let ?p = "onDOMContentLoaded (answer_with [dune, untitled]) initial_page"
  have u: "\<not> truthy (title untitled)" by (simp add: untitled_def)
  have f: "filter isValid (loadBooks_of (answer_with [dune, untitled])) = [dune]"
    by (simp add: loadBooks_of_def loadBooks_try_def answer_with_def isValid_def dune_def
          untitled_def string_eval)
  have pb: "page_books ?p = [dune]"
    by (simp add: onDOMContentLoaded_def updateDisplay_def loadBooksForIndex_def f)
  have "filter_js (matchesQuery ''une'') (page_books ?p)
          = Inr (filter (query_matches ''une'') (page_books ?p))"
    by (rule filter_js_total) (simp add: pb matchesQuery_valid string_eval)
  then obtain p' where s: "searchBooks ''une'' ?p = Inr p'"
    by (simp add: searchBooks_def string_eval)
  note t = malformed_entries_dropped_before_the_grid[where fetched = "answer_with [dune, untitled]"
      and p = initial_page and shown = "[dune, untitled]" and bs = "[dune, untitled]"
      and b = untitled]
  note t2 = malformed_entries_dropped_before_the_grid[where fetched = "answer_with [untitled]"
      and p = ?p and shown = "[]" and bs = "[]" and b = untitled and query = "''une''" and p' = p']
  have 3: "\<exists>p'. searchBooks ''une'' ?p = Inr p' \<and> only_book_cells p'"
    using t t2 s by blast
  show ?thesis
    using t t2 u f 3 by simp
qed

text \<open>
  Claim C6 as first stated fails on a stored collection with an entry that has no title:
  the table shows one cell, for the other book, and no error-styled cell; when the
  entry is alone the table shows the "no books" cell.
\<close>

theorem untitled_entry_dropped_counterexample:
  "title untitled = None
   \<and> loadBooks_of (answer_with [dune, untitled]) = [dune, untitled]
   \<and> table (onDOMContentLoaded (answer_with [dune, untitled]) initial_page)
       = [[bookCell [dune] (Some dune)]]
   \<and> inner (bookCell [dune] (Some dune)) = GlyphAndTitle ''Dune''
   \<and> table (onDOMContentLoaded (answer_with [untitled]) initial_page) = [[placeholder_cell]]"
  by (simp add: untitled_def loadBooks_of_def loadBooks_try_def answer_with_def
        onDOMContentLoaded_def updateDisplay_def loadBooksForIndex_def
        isValid_def dune_def string_eval updateBookshelf_def Let_def booksPerRow_def
        ceil_quotient_8 at_index_def placeholder_cell_def
        bookCell_def insertCell_def shorten_def indexOf_def substring0_def)

subsection \<open>Refocus\<close>

text \<open>
  Claim C5. The \<^verbatim>\<open>focus\<close> handler always replaces the page's collection \<^verbatim>\<open>books\<close> by
  what \<^verbatim>\<open>loadBooksForIndex\<close> fetched. When the length of the collection is what it was
  at the last fetch, the display (table, heading, empty-library message) is left as it
  was, whatever the books now are; when the length differs, the handler renders the new
  collection. The collection of the page is the fetched one whenever every fetched entry
  is valid.
\<close>

theorem refocus_rerenders_only_on_length_change:
  "page_books (onFocus fetched p) = loadBooksForIndex fetched
   \<and> (length (loadBooksForIndex fetched) = length (page_books p) \<longrightarrow>
        table (onFocus fetched p) = table p \<and> h3 (onFocus fetched p) = h3 p
        \<and> emptyTitle (onFocus fetched p) = emptyTitle p
        \<and> emptyMessage (onFocus fetched p) = emptyMessage p)
   \<and> (length (loadBooksForIndex fetched) \<noteq> length (page_books p) \<longrightarrow>
        onFocus fetched p = updateDisplay (p\<lparr>page_books := loadBooksForIndex fetched\<rparr>)
        \<and> table (onFocus fetched p)
            = updateBookshelf (loadBooksForIndex fetched) (loadBooksForIndex fetched))
   \<and> (list_all isValid (loadBooks_of fetched) \<longrightarrow>
        loadBooksForIndex fetched = loadBooks_of fetched)"
  by (simp add: onFocus_def Let_def updateDisplay_def loadBooksForIndex_def list_all_iff)

theorem refocus_rerenders_only_on_length_change_witness:
  "page_books (onDOMContentLoaded (answer_with [dune]) initial_page) = [dune]
   \<and> list_all isValid (loadBooks_of (answer_with [emma]))
   \<and> loadBooksForIndex (answer_with [emma]) = loadBooks_of (answer_with [emma])
   \<and> length (loadBooksForIndex (answer_with [emma])) = length [dune]
   \<and> page_books (onFocus (answer_with [emma]) (onDOMContentLoaded (answer_with [dune]) initial_page))
       = [emma]
   \<and> table (onFocus (answer_with [emma]) (onDOMContentLoaded (answer_with [dune]) initial_page))
       = [[bookCell [dune] (Some dune)]]
   \<and> length (loadBooksForIndex (answer_with [dune, emma])) \<noteq> length [dune]
   \<and> table (onFocus (answer_with [dune, emma]) (onDOMContentLoaded (answer_with [dune]) initial_page))
       = updateBookshelf [dune, emma] [dune, emma]"
proof -
  let ?p = "onDOMContentLoaded (answer_with [dune]) initial_page"
  have p: "page_books ?p = [dune]" "table ?p = [[bookCell [dune] (Some dune)]]"
    by (simp_all add: onDOMContentLoaded_def updateDisplay_def loadBooksForIndex_answer table_one)
  show ?thesis
    using refocus_rerenders_only_on_length_change[of "answer_with [emma]" ?p]
      refocus_rerenders_only_on_length_change[of "answer_with [dune, emma]" ?p] p
    by (simp add: loadBooksForIndex_answer updateDisplay_def loadBooks_of_def loadBooks_try_def
          answer_with_def)
qed

subsection \<open>The persistence client\<close>

text \<open>
  Claim C7. The persistence client fails soft. Whatever exception the \<^verbatim>\<open>try\<close> block of
  \<^verbatim>\<open>loadBooks\<close> ends with (the fetch is rejected, the body of the response does not
  parse), the function returns the empty list; whatever exception the \<^verbatim>\<open>try\<close> block of
  \<^verbatim>\<open>saveBooks\<close> ends with, the function returns \<open>False\<close>, and so it does when the response
  is not \<^verbatim>\<open>ok\<close>. Against the server: a load over a link that is not up yields the empty
  list, a load over a link that is up yields the stored books, and a save returns \<open>True\<close>
  exactly when the request was answered and the write succeeded.
\<close>

theorem persistence_client_fails_soft:
  "(loadBooks_try fetched = Inl err \<longrightarrow> loadBooks_of fetched = [])
   \<and> (saveBooks_try posted = Inl err' \<longrightarrow> saveBooks_of posted = False)
   \<and> (\<not> ok r \<longrightarrow> saveBooks_of (Resolved r) = False)
   \<and> (l \<noteq> Up \<longrightarrow> fst (loadBooks l w) = [])
   \<and> fst (loadBooks Up w)
       = (case books_json w of
            None \<Rightarrow> []
          | Some d \<Rightarrow> (case books d of None \<Rightarrow> [] | Some stored \<Rightarrow> stored))
   \<and> fst (saveBooks e bs w) = ((post_link e = Up \<or> post_link e = ReplyGarbled) \<and> disk_ok e)"
proof (intro conjI impI)
  show "loadBooks_of fetched = []" if "loadBooks_try fetched = Inl err"
    using that by (simp add: loadBooks_of_def)
  show "saveBooks_of posted = False" if "saveBooks_try posted = Inl err'"
    using that by (simp add: saveBooks_of_def)
  show "saveBooks_of (Resolved r) = False" if "\<not> ok r"
    using that by (simp add: saveBooks_of_def saveBooks_try_def)
  show "fst (loadBooks l w) = []" if "l \<noteq> Up"
    using that
    by (cases l) (simp_all add: loadBooks_def fetch_get_def loadBooks_of_def loadBooks_try_def)
  show "fst (loadBooks Up w)
       = (case books_json w of
            None \<Rightarrow> []
          | Some d \<Rightarrow> (case books d of None \<Rightarrow> [] | Some stored \<Rightarrow> stored))"
    by (simp add: loadBooks_def fetch_get_def loadBooks_of_def loadBooks_try_def server_get_def
          split: option.splits)
  show "fst (saveBooks e bs w) = ((post_link e = Up \<or> post_link e = ReplyGarbled) \<and> disk_ok e)"
    by (cases "post_link e")
       (simp_all add: saveBooks_def fetch_post_def server_post_def saveBooks_of_def
          saveBooks_try_def Let_def)
qed

theorem persistence_client_fails_soft_witness:
  "loadBooks_try (Rejected TypeError) = Inl TypeError
   \<and> loadBooks_of (Rejected TypeError) = []
   \<and> saveBooks_try (Rejected TypeError) = Inl TypeError
   \<and> saveBooks_of (Rejected TypeError) = False
   \<and> \<not> ok \<lparr>ok = False, json = Rejected SyntaxError\<rparr>
   \<and> saveBooks_of (Resolved \<lparr>ok = False, json = Rejected SyntaxError\<rparr>) = False
   \<and> ReplyGarbled \<noteq> Up
   \<and> fst (loadBooks ReplyGarbled quiet_world) = []
   \<and> fst (loadBooks Up quiet_world) = [dune, emma]
   \<and> fst (saveBooks (fair_env\<lparr>disk_ok := False\<rparr>) [dune] quiet_world) = False"
  using persistence_client_fails_soft[where fetched = "Rejected TypeError" and err = TypeError
      and posted = "Rejected TypeError" and err' = TypeError
      and r = "\<lparr>ok = False, json = Rejected SyntaxError\<rparr>" and l = ReplyGarbled
      and w = quiet_world and e = "fair_env\<lparr>disk_ok := False\<rparr>" and bs = "[dune]"]
  by (simp add: loadBooks_try_def saveBooks_try_def quiet_world_def dataToSave_def)

text \<open>
  Claim C9. The document that \<^verbatim>\<open>saveBooks\<close> transmits has \<^verbatim>\<open>totalBooks\<close> equal to the
  length of the list it carries and \<^verbatim>\<open>lastUpdated\<close> equal to the reading of the clock
  taken inside the call; when the request reaches the server and the write succeeds, that
  document is the file. Reading does not check the count: \<^verbatim>\<open>loadBooks\<close> returns the
  books of a document whatever its \<^verbatim>\<open>totalBooks\<close> is.
\<close>

theorem save_writes_count_and_fresh_timestamp:
  "sent (snd (saveBooks e bs w)) = sent w @ [POST (dataToSave (saved_at e) bs)]
   \<and> totalBooks (dataToSave (saved_at e) bs) = Some (length bs)
   \<and> lastUpdated (dataToSave (saved_at e) bs) = Some (saved_at e)
   \<and> books (dataToSave (saved_at e) bs) = Some bs
   \<and> library (dataToSave (saved_at e) bs) = Some ''Little Library''
   \<and> books_json (snd (saveBooks e bs w))
       = (if post_link e \<noteq> Down \<and> disk_ok e then Some (dataToSave (saved_at e) bs)
          else books_json w)
   \<and> loadBooks_of (Resolved \<lparr>ok = b, json = Resolved (d\<lparr>totalBooks := n\<rparr>)\<rparr>)
       = (case books d of None \<Rightarrow> [] | Some stored \<Rightarrow> stored)"
  by (auto simp: saveBooks_def fetch_post_def server_post_def dataToSave_def Let_def
        loadBooks_of_def loadBooks_try_def split: prod.splits)

theorem save_writes_count_and_fresh_timestamp_witness:
  "sent (snd (saveBooks fair_env [dune] quiet_world))
     = [POST \<lparr>library = Some ''Little Library'', lastUpdated = Some 1700000000005,
               totalBooks = Some 1, books = Some [dune]\<rparr>]
   \<and> books_json (snd (saveBooks fair_env [dune] quiet_world))
     = Some \<lparr>library = Some ''Little Library'', lastUpdated = Some 1700000000005,
             totalBooks = Some 1, books = Some [dune]\<rparr>
   \<and> loadBooks_of (Resolved \<lparr>ok = True, json = Resolved ((dataToSave 0 [dune])\<lparr>totalBooks := Some 7\<rparr>)\<rparr>)
     = [dune]"
  using save_writes_count_and_fresh_timestamp[where e = fair_env and bs = "[dune]"
      and w = quiet_world and b = True and d = "dataToSave 0 [dune]" and n = "Some 7"]
  by (simp add: fair_env_def quiet_world_def dataToSave_def)

subsection \<open>Status update and deletion\<close>






subsection \<open>The identifier of the page address\<close>




subsection \<open>Adding a book\<close>




end
